theory Spec2Isabelle
  imports Main "HOL-Library.Sublist" "HOL-Library.AList"
begin

section \<open>Text primitives of the build script\<close>

text \<open>
  Python strings are modelled as HOL strings (lists of characters with code points below
  256).  The characters Python's \<^verbatim>\<open>str.strip\<close>, \<^verbatim>\<open>str.rstrip\<close> and the regular
  expression class \<^verbatim>\<open>\s\<close> treat as white space in that range are: tab, line feed,
  vertical tab, form feed, carriage return, the four separators 0x1C to 0x1F, space,
  0x85 and 0xA0.
\<close>

definition is_space :: "char \<Rightarrow> bool" where
  "is_space c = (c \<in> {CHR 0x09, CHR 0x0A, CHR 0x0B, CHR 0x0C, CHR 0x0D, CHR 0x1C,
                        CHR 0x1D, CHR 0x1E, CHR 0x1F, CHR 0x20, CHR 0x85, CHR 0xA0})"

definition rstrip :: "string \<Rightarrow> string" where
  "rstrip s = rev (dropWhile is_space (rev s))"

definition strip :: "string \<Rightarrow> string" where
  "strip s = dropWhile is_space (rstrip s)"

text \<open>The substring test \<^verbatim>\<open>sub in s\<close>.\<close>

primrec contains :: "string \<Rightarrow> string \<Rightarrow> bool" where
  "contains sub [] = (sub = [])"
| "contains sub (c # cs) = (prefix sub (c # cs) \<or> contains sub cs)"

text \<open>
  \<^verbatim>\<open>re.sub(r"#.*", "", line)\<close>: every \<^verbatim>\<open>#\<close> met while scanning from the left is removed
  together with all characters up to, and not including, the next line feed (the dot of
  the pattern matches no line feed); the scan goes on after the removed part.
\<close>

function sub_comment :: "string \<Rightarrow> string" where
  "sub_comment [] = []"
| "sub_comment (c # cs) =
     (if c = CHR ''#'' then sub_comment (dropWhile (\<lambda>x. x \<noteq> CHR 0x0A) cs)
      else c # sub_comment cs)"
  by pat_completeness auto
termination
  by (relation "measure length") (auto simp: length_dropWhile_le less_Suc_eq_le)

text \<open>
  A file opened with \<^verbatim>\<open>open(path, "r", encoding="utf-8")\<close> is read with universal
  newlines: a carriage return followed by a line feed, and a carriage return alone, end
  a line as a line feed does, and each of them arrives as one line feed.
\<close>

fun universal_newlines :: "string \<Rightarrow> string" where
  "universal_newlines [] = []"
| "universal_newlines [c] = (if c = CHR 0x0D then [CHR 0x0A] else [c])"
| "universal_newlines (c # d # cs) =
     (if c = CHR 0x0D then
        (if d = CHR 0x0A then CHR 0x0A # universal_newlines cs
         else CHR 0x0A # universal_newlines (d # cs))
      else c # universal_newlines (d # cs))"

text \<open>
  The lines of a text whose line ends are line feeds: the text is cut after every line
  feed, and every line keeps its line feed; a last line without one is kept as it is.
\<close>

fun lines_from :: "string \<Rightarrow> string \<Rightarrow> string list" where
  "lines_from cur [] = (if cur = [] then [] else [cur])"
| "lines_from cur (c # cs) =
     (if c = CHR 0x0A then (cur @ [c]) # lines_from [] cs
      else lines_from (cur @ [c]) cs)"

text \<open>
  \<^verbatim>\<open>file.readlines()\<close> on the stored text of such a file: the lines of the text read
  with universal newlines.
\<close>

definition readlines :: "string \<Rightarrow> string list" where
  "readlines stored = lines_from [] (universal_newlines stored)"

text \<open>\<^verbatim>\<open>"\n".join(entries)\<close>.\<close>

fun join_nl :: "string list \<Rightarrow> string" where
  "join_nl [] = []"
| "join_nl [x] = x"
| "join_nl (x # y # ys) = x @ [CHR 0x0A] @ join_nl (y # ys)"

section \<open>The line cleaner\<close>

text \<open>
  \<^verbatim>\<open>clean_lines(lines)\<close>: the loop over the lines, with the local variables
  \<^verbatim>\<open>inside_ascii_art\<close> and \<^verbatim>\<open>cleaned_lines\<close> as arguments.  The function starts the
  loop with the flag false and the list empty, and returns the list only.
\<close>

fun clean_loop :: "bool \<Rightarrow> string list \<Rightarrow> string list \<Rightarrow> string list" where
  "clean_loop inside_ascii_art [] cleaned_lines = cleaned_lines"
| "clean_loop inside_ascii_art (line # rest) cleaned_lines =
     (let inside = (if contains ''Show-Dragon'' line then True else inside_ascii_art) in
      if inside then
        clean_loop (if strip line = [] then False else inside) rest
          (cleaned_lines @ [rstrip line])
      else
        (let stripped_line = strip (sub_comment line) in
         if stripped_line \<noteq> [] then clean_loop inside rest (cleaned_lines @ [stripped_line])
         else clean_loop inside rest cleaned_lines))"

definition clean_lines :: "string list \<Rightarrow> string list" where
  "clean_lines lines = clean_loop False lines []"

section \<open>Files, directories and the library\<close>

text \<open>
  The file system maps a path, as the string Python's \<^verbatim>\<open>str(Path(...))\<close> gives, to a file
  with its stored text (the characters a read without newline translation would give)
  or to a directory.  The world also records, in order, what a run
  leaves behind: removed and created directories, written files and printed lines.
  Opening a file for reading fails when it is missing or a directory.  Failures of the
  operating system while writing or removing (permissions, a missing parent directory, a
  directory in the file's place) are outside the model: such a step always succeeds.
\<close>

datatype node = File string | Dir

datatype effect = Rmtree string | Mkdir string | Wrote string string | Printed string

record world =
  nodes :: "string \<Rightarrow> node option"
  effects :: "effect list"

datatype error =
    FileNotFoundError string
  | IsADirectoryError string
  | FileExistsError string
  | JSONDecodeError
  | KeyError string
  | TypeError

text \<open>
  A JSON document as \<^verbatim>\<open>json.load\<close> returns it; a Python dictionary keeps its keys in
  insertion order, so it is an association list.  Numbers that are not integers are
  outside the model.
\<close>

datatype json =
    JNull
  | JBool bool
  | JInt int
  | JStr string
  | JArr "json list"
  | JObj "(string \<times> json) list"

text \<open>
  What the script takes from Python's library and does not define itself: the last
  component of a path (\<^verbatim>\<open>Path(p).name\<close>), the path of an entry below a directory
  (\<^verbatim>\<open>Path(d) / name\<close>), whether a path lies below a directory (what \<^verbatim>\<open>shutil.rmtree\<close>
  removes), the JSON decoder and encoder, and the text \<^verbatim>\<open>str\<close> gives for a value in a
  formatted string.  The model takes them as a parameter.  The decoder is taken on the
  stored text of the file: every form of line end is white space to it, so reading the
  file with universal newlines does not change what it returns.
\<close>

record pylib =
  path_name :: "string \<Rightarrow> string"
  path_join :: "string \<Rightarrow> string \<Rightarrow> string"
  path_within :: "string \<Rightarrow> string \<Rightarrow> bool"
  json_loads :: "string \<Rightarrow> json option"
  json_dumps :: "json \<Rightarrow> string"
  format_value :: "json \<Rightarrow> string"

definition path_exists :: "world \<Rightarrow> string \<Rightarrow> bool" where
  "path_exists w p = (nodes w p \<noteq> None)"

definition read_text :: "string \<Rightarrow> world \<Rightarrow> error + string" where
  "read_text file_path w =
     (case nodes w file_path of
        None \<Rightarrow> Inl (FileNotFoundError file_path)
      | Some Dir \<Rightarrow> Inl (IsADirectoryError file_path)
      | Some (File text) \<Rightarrow> Inr text)"

definition write_text :: "string \<Rightarrow> string \<Rightarrow> world \<Rightarrow> world" where
  "write_text file_path text w =
     w\<lparr>nodes := (nodes w)(file_path \<mapsto> File text),
       effects := effects w @ [Wrote file_path text]\<rparr>"

definition print_line :: "string \<Rightarrow> world \<Rightarrow> world" where
  "print_line text w = w\<lparr>effects := effects w @ [Printed text]\<rparr>"

definition read_file :: "string \<Rightarrow> world \<Rightarrow> error + string list" where
  "read_file file_path w =
     (case read_text file_path w of Inl e \<Rightarrow> Inl e | Inr text \<Rightarrow> Inr (readlines text))"

definition ensure_directory_exists :: "string \<Rightarrow> world \<Rightarrow> error + world" where
  "ensure_directory_exists directory w =
     (case nodes w directory of
        Some Dir \<Rightarrow> Inr w
      | Some (File text) \<Rightarrow> Inl (FileExistsError directory)
      | None \<Rightarrow> Inr (w\<lparr>nodes := (nodes w)(directory \<mapsto> Dir),
                         effects := effects w @ [Mkdir directory]\<rparr>))"

definition delete_build_directory :: "pylib \<Rightarrow> string \<Rightarrow> world \<Rightarrow> world" where
  "delete_build_directory L directory w =
     (if path_exists w directory \<and> nodes w directory = Some Dir then
        w\<lparr>nodes := (\<lambda>p. if p = directory \<or> path_within L directory p then None
                         else nodes w p),
          effects := effects w @ [Rmtree directory]\<rparr>
      else w)"

section \<open>The script combiner\<close>

text \<open>
  The import pattern \<^verbatim>\<open>^\.\s+(.*\\Modules\\.*\.ps1)$\<close>, matched at the start of the line:
  a dot, a non-empty run of white space, and the captured path, which holds no line feed,
  has the segment \<^verbatim>\<open>Modules\<close> between two backslashes before its last four characters
  and ends in \<^verbatim>\<open>.ps1\<close>; the end anchor also accepts one line feed after the path.  The
  run of white space is the longest one: no character of the segment, of the backslashes
  around it or of \<^verbatim>\<open>.ps1\<close> is white space, so a
  shorter run matches only where the longest does, and the longest is tried first.  The
  result is the captured path.
\<close>

definition module_match :: "string \<Rightarrow> string option" where
  "module_match line =
     (case line of
        [] \<Rightarrow> None
      | c # after_dot \<Rightarrow>
          (let spaces = takeWhile is_space after_dot;
               tail = dropWhile is_space after_dot;
               module_path = (if tail \<noteq> [] \<and> last tail = CHR 0x0A then butlast tail else tail)
           in if c = CHR ''.'' \<and> spaces \<noteq> [] \<and> CHR 0x0A \<notin> set module_path
                 \<and> suffix ''.ps1'' module_path
                 \<and> contains (CHR 0x5C # ''Modules'' @ [CHR 0x5C])
                      (take (length module_path - 4) module_path)
              then Some module_path else None))"

text \<open>
  The loop of \<^verbatim>\<open>combine_powershell_scripts\<close> over the lines of the main script, with the
  local variables \<^verbatim>\<open>inside_show_dragon\<close> and \<^verbatim>\<open>combined_script\<close> as arguments.  The loop
  only reads the file system.
\<close>

fun combine_loop ::
  "pylib \<Rightarrow> string \<Rightarrow> world \<Rightarrow> bool \<Rightarrow> string list \<Rightarrow> string list \<Rightarrow> error + string list"
where
  "combine_loop L modules_folder w inside_show_dragon [] combined_script = Inr combined_script"
| "combine_loop L modules_folder w inside_show_dragon (line # rest) combined_script =
     (let inside = (if contains ''function Show-Dragon'' line then True
                    else inside_show_dragon) in
      if inside then
        combine_loop L modules_folder w (if strip line = [] then False else inside) rest
          (combined_script @ [rstrip line])
      else
        (case module_match line of
           Some module_path \<Rightarrow>
             (let module_full_path = path_join L modules_folder (path_name L module_path) in
              if path_exists w module_full_path then
                (case read_file module_full_path w of
                   Inl e \<Rightarrow> Inl e
                 | Inr module_lines \<Rightarrow>
                     combine_loop L modules_folder w inside rest
                       (combined_script @ module_lines))
              else combine_loop L modules_folder w inside rest combined_script)
         | None \<Rightarrow>
             combine_loop L modules_folder w inside rest
               (combined_script @ clean_lines [line])))"


definition combine_powershell_scripts ::
  "pylib \<Rightarrow> string \<Rightarrow> string \<Rightarrow> string \<Rightarrow> world \<Rightarrow> error + world"
where
  "combine_powershell_scripts L source_file modules_folder output_file w =
     (case ensure_directory_exists ''build'' w of
        Inl e \<Rightarrow> Inl e
      | Inr w1 \<Rightarrow>
          (case read_file source_file w1 of
             Inl e \<Rightarrow> Inl e
           | Inr main_script_lines \<Rightarrow>
               (case combine_loop L modules_folder w1 False main_script_lines [] of
                  Inl e \<Rightarrow> Inl e
                | Inr combined_script \<Rightarrow>
                    Inr (write_text output_file (join_nl combined_script) w1))))"

section \<open>The settings store\<close>

text \<open>Subscription \<^verbatim>\<open>value[key]\<close> with a string key, on what \<^verbatim>\<open>json.load\<close> may return.\<close>

fun getitem :: "json \<Rightarrow> string \<Rightarrow> error + json" where
  "getitem (JObj entries) key =
     (case map_of entries key of None \<Rightarrow> Inl (KeyError key) | Some v \<Rightarrow> Inr v)"
| "getitem other key = Inl TypeError"

text \<open>Assignment \<^verbatim>\<open>value[key] = v\<close>: a present key keeps its place, a new one goes last.\<close>

fun setitem :: "json \<Rightarrow> string \<Rightarrow> json \<Rightarrow> error + json" where
  "setitem (JObj entries) key v = Inr (JObj (AList.update key v entries))"
| "setitem other key v = Inl TypeError"

text \<open>The test \<^verbatim>\<open>key in value\<close> with a string key.\<close>

fun has_key :: "string \<Rightarrow> json \<Rightarrow> error + bool" where
  "has_key key (JObj entries) = Inr (key \<in> fst ` set entries)"
| "has_key key (JArr items) = Inr (JStr key \<in> set items)"
| "has_key key (JStr text) = Inr (contains key text)"
| "has_key key other = Inl TypeError"

text \<open>
  The integer a value stands for in \<^verbatim>\<open>value >= 9999\<close> and \<^verbatim>\<open>value += 1\<close>; Python's
  booleans are the integers 0 and 1 there, and every other kind of value raises.
\<close>

fun as_int :: "json \<Rightarrow> error + int" where
  "as_int (JInt i) = Inr i"
| "as_int (JBool b) = Inr (if b then 1 else 0)"
| "as_int other = Inl TypeError"

definition default_version :: json where
  "default_version =
     JObj [(''major'', JInt 1), (''minor'', JInt 0), (''patch'', JInt 0), (''build'', JInt 0)]"

definition default_settings :: json where
  "default_settings =
     JObj [(''defaultSource'', JStr (''D:'' @ [CHR 0x5C])),
           (''defaultDestination'', JStr (''B:'' @ [CHR 0x5C] @ ''DayAfter'')),
           (''version'', default_version)]"

definition read_settings :: "pylib \<Rightarrow> string \<Rightarrow> world \<Rightarrow> error + (json \<times> world)" where
  "read_settings L settings_file w =
     (if \<not> path_exists w settings_file then
        Inr (default_settings, write_text settings_file (json_dumps L default_settings) w)
      else
        (case read_text settings_file w of
           Inl e \<Rightarrow> Inl e
         | Inr text \<Rightarrow>
             (case json_loads L text of
                None \<Rightarrow> Inl JSONDecodeError
              | Some settings \<Rightarrow>
                  (case has_key ''version'' settings of
                     Inl e \<Rightarrow> Inl e
                   | Inr True \<Rightarrow> Inr (settings, w)
                   | Inr False \<Rightarrow>
                       (case setitem settings ''version'' default_version of
                          Inl e \<Rightarrow> Inl e
                        | Inr settings' \<Rightarrow> Inr (settings', w))))))"

text \<open>
  \<^verbatim>\<open>update_build_number\<close> changes the dictionary it is given in place; the model returns
  the changed dictionary with the world.
\<close>

definition advance_version :: "json \<Rightarrow> error + json" where
  "advance_version version =
     (case getitem version ''build'' of
        Inl e \<Rightarrow> Inl e
      | Inr build \<Rightarrow>
          (case as_int build of
             Inl e \<Rightarrow> Inl e
           | Inr b \<Rightarrow>
               if b \<ge> 9999 then
                 (case setitem version ''build'' (JInt 0) of
                    Inl e \<Rightarrow> Inl e
                  | Inr version1 \<Rightarrow>
                      (case getitem version1 ''patch'' of
                         Inl e \<Rightarrow> Inl e
                       | Inr patch \<Rightarrow>
                           (case as_int patch of
                              Inl e \<Rightarrow> Inl e
                            | Inr p \<Rightarrow> setitem version1 ''patch'' (JInt (p + 1)))))
               else setitem version ''build'' (JInt (b + 1))))"

definition update_build_number ::
  "pylib \<Rightarrow> string \<Rightarrow> json \<Rightarrow> world \<Rightarrow> error + (json \<times> world)"
where
  "update_build_number L settings_file settings w =
     (case getitem settings ''version'' of
        Inl e \<Rightarrow> Inl e
      | Inr version \<Rightarrow>
          (case advance_version version of
             Inl e \<Rightarrow> Inl e
           | Inr version' \<Rightarrow>
               (case setitem settings ''version'' version' of
                  Inl e \<Rightarrow> Inl e
                | Inr settings' \<Rightarrow>
                    Inr (settings', write_text settings_file (json_dumps L settings') w))))"

definition get_version_string :: "pylib \<Rightarrow> json \<Rightarrow> error + string" where
  "get_version_string L version =
     (case getitem version ''major'' of
        Inl e \<Rightarrow> Inl e
      | Inr major \<Rightarrow>
          (case getitem version ''minor'' of
             Inl e \<Rightarrow> Inl e
           | Inr minor \<Rightarrow>
               (case getitem version ''patch'' of
                  Inl e \<Rightarrow> Inl e
                | Inr patch \<Rightarrow>
                    (case getitem version ''build'' of
                       Inl e \<Rightarrow> Inl e
                     | Inr build \<Rightarrow>
                         Inr (format_value L major @ ''.'' @ format_value L minor @ ''.''
                              @ format_value L patch @ ''.'' @ format_value L build)))))"

section \<open>The launcher patcher\<close>

text \<open>The text of \<^verbatim>\<open>ps_code_to_insert\<close>, line by line.\<close>

definition ps_code_to_insert :: string where
  "ps_code_to_insert =
     [CHR 0x0A]
     @ ''    # Define a local temporary file path'' @ [CHR 0x0A]
     @ ''    $tempFilePath = '' @ [CHR 0x22] @ ''$env:TEMP'' @ [CHR 0x5C] @ ''winDragon.ps1''
       @ [CHR 0x22, CHR 0x0A]
     @ [CHR 0x0A]
     @ ''    # Download the script'' @ [CHR 0x0A]
     @ ''    try {'' @ [CHR 0x0A]
     @ ''        Invoke-WebRequest -Uri $winDragonScriptURL -OutFile $tempFilePath -ErrorAction Stop''
       @ [CHR 0x0A]
     @ ''        Write-Host '' @ [CHR 0x22] @ ''WinDragon script downloaded successfully.''
       @ [CHR 0x22] @ '' -ForegroundColor Green'' @ [CHR 0x0A]
     @ ''    } catch {'' @ [CHR 0x0A]
     @ ''        Write-Host '' @ [CHR 0x22] @ ''Failed to download the script: $_'' @ [CHR 0x22]
       @ '' -ForegroundColor Red'' @ [CHR 0x0A]
     @ ''        exit'' @ [CHR 0x0A]
     @ ''    }'' @ [CHR 0x0A]
     @ ''    $winDragonScriptPath = $tempFilePath'' @ [CHR 0x0A]
     @ ''    ''"

definition url_assignment :: "string \<Rightarrow> string" where
  "url_assignment output_filename =
     ''$winDragonScriptPath = '' @ [CHR 0x22]
     @ ''https://raw.githubusercontent.com/galactic-plane/windragon/main/build/''
     @ output_filename @ [CHR 0x22]"

text \<open>
  The loop of \<^verbatim>\<open>update_launcher_script\<close> over the lines of the launcher, with the local
  variables \<^verbatim>\<open>found\<close> and \<^verbatim>\<open>updated_lines\<close> as arguments.
\<close>

fun patch_loop :: "string \<Rightarrow> bool \<Rightarrow> string list \<Rightarrow> string list \<Rightarrow> string list" where
  "patch_loop output_filename found [] updated_lines = updated_lines"
| "patch_loop output_filename found (line # rest) updated_lines =
     (if contains ''$winDragonScriptPath'' line \<and> \<not> found then
        patch_loop output_filename True rest
          (updated_lines @ [url_assignment output_filename] @ [ps_code_to_insert])
      else patch_loop output_filename found rest (updated_lines @ [rstrip line]))"

definition update_launcher_script ::
  "pylib \<Rightarrow> string \<Rightarrow> string \<Rightarrow> world \<Rightarrow> error + world"
where
  "update_launcher_script L launcher_file output_file w =
     (let output_filename = path_name L output_file in
      case read_file launcher_file w of
        Inl e \<Rightarrow> Inl e
      | Inr launcher_lines \<Rightarrow>
          (let updated_lines = patch_loop output_filename False launcher_lines [];
               output_launcher_path = path_join L ''build'' (path_name L launcher_file)
           in Inr (write_text output_launcher_path (join_nl updated_lines) w)))"

section \<open>The orchestrator\<close>

text \<open>The body run under \<^verbatim>\<open>if __name__ == "__main__"\<close>, statement by statement.\<close>

definition main :: "pylib \<Rightarrow> world \<Rightarrow> error + world" where
  "main L w =
     (let source_file = ''winDragon.ps1'';
          modules_folder = ''Modules'';
          settings_file = ''settings.json'';
          w1 = delete_build_directory L ''build'' w
      in case read_settings L settings_file w1 of
           Inl e \<Rightarrow> Inl e
         | Inr (settings, w2) \<Rightarrow>
             (case getitem settings ''version'' of
                Inl e \<Rightarrow> Inl e
              | Inr version \<Rightarrow>
                  (case get_version_string L version of
                     Inl e \<Rightarrow> Inl e
                   | Inr version_string \<Rightarrow>
                       (let output_file =
                              path_join L ''build'' (''winDragon_'' @ version_string @ ''.ps1'')
                        in case combine_powershell_scripts L source_file modules_folder
                                  output_file w2 of
                             Inl e \<Rightarrow> Inl e
                           | Inr w3 \<Rightarrow>
                               (case update_build_number L settings_file settings w3 of
                                  Inl e \<Rightarrow> Inl e
                                | Inr (settings', w4) \<Rightarrow>
                                    (case update_launcher_script L ''launcher.ps1''
                                            output_file w4 of
                                       Inl e \<Rightarrow> Inl e
                                     | Inr w5 \<Rightarrow>
                                         Inr (print_line
                                                (''Combined script has been saved to ''
                                                 @ output_file) w5)))))))"

section \<open>An instance of the library\<close>

text \<open>
  The theorems below hold for every library.  To run the model on examples, here is a
  small instance with Windows paths: a name is what follows the last separator, an entry
  of a directory is the directory, a backslash and the name.  Its encoder writes compact
  JSON, its decoder knows the documents of a fixed list, and its formatter writes
  integers in decimal, strings as they are, and booleans and \<^verbatim>\<open>None\<close> as Python does.
\<close>

definition win_name :: "string \<Rightarrow> string" where
  "win_name p = rev (takeWhile (\<lambda>c. c \<noteq> CHR 0x5C \<and> c \<noteq> CHR ''/'') (rev p))"

definition win_join :: "string \<Rightarrow> string \<Rightarrow> string" where
  "win_join d name = d @ [CHR 0x5C] @ name"

definition win_within :: "string \<Rightarrow> string \<Rightarrow> bool" where
  "win_within d p = prefix (d @ [CHR 0x5C]) p"

definition digit_char :: "nat \<Rightarrow> char" where
  "digit_char d = ''0123456789'' ! d"

function show_nat :: "nat \<Rightarrow> string" where
  "show_nat n = (if n < 10 then [digit_char n] else show_nat (n div 10) @ [digit_char (n mod 10)])"
  by pat_completeness auto
termination
  by (relation "measure id") auto

declare show_nat.simps [simp del]

definition show_int :: "int \<Rightarrow> string" where
  "show_int i = (if i < 0 then ''-'' @ show_nat (nat (- i)) else show_nat (nat i))"

fun demo_format :: "json \<Rightarrow> string" where
  "demo_format (JInt i) = show_int i"
| "demo_format (JStr text) = text"
| "demo_format (JBool b) = (if b then ''True'' else ''False'')"
| "demo_format JNull = ''None''"
| "demo_format other = []"

definition quoted :: "string \<Rightarrow> string" where
  "quoted text =
     [CHR 0x22]
     @ concat (map (\<lambda>c. if c = CHR 0x22 \<or> c = CHR 0x5C then [CHR 0x5C, c] else [c]) text)
     @ [CHR 0x22]"

fun comma_sep :: "string list \<Rightarrow> string" where
  "comma_sep [] = []"
| "comma_sep [x] = x"
| "comma_sep (x # y # ys) = x @ '', '' @ comma_sep (y # ys)"

fun demo_dumps :: "json \<Rightarrow> string" where
  "demo_dumps JNull = ''null''"
| "demo_dumps (JBool b) = (if b then ''true'' else ''false'')"
| "demo_dumps (JInt i) = show_int i"
| "demo_dumps (JStr text) = quoted text"
| "demo_dumps (JArr items) = ''['' @ comma_sep (map demo_dumps items) @ '']''"
| "demo_dumps (JObj entries) =
     ''{'' @ comma_sep (map (\<lambda>entry. quoted (fst entry) @ '': '' @ demo_dumps (snd entry)) entries)
     @ ''}''"

definition demo_documents :: "json list" where
  "demo_documents =
     [default_settings,
      JObj [(''defaultSource'', JStr ''E:'')],
      JObj [(''version'', JObj [(''major'', JInt 1), (''minor'', JInt 0), (''patch'', JInt 2),
                               (''build'', JInt 9999)])]]"

definition demo_loads :: "string \<Rightarrow> json option" where
  "demo_loads text = find (\<lambda>document. demo_dumps document = text) demo_documents"

definition demo_lib :: pylib where
  "demo_lib = \<lparr>path_name = win_name, path_join = win_join, path_within = win_within,
               json_loads = demo_loads, json_dumps = demo_dumps, format_value = demo_format\<rparr>"

text \<open>A world with the given files and directories and nothing recorded yet.\<close>

definition world_of :: "(string \<times> node) list \<Rightarrow> world" where
  "world_of entries = \<lparr>nodes = map_of entries, effects = []\<rparr>"


definition run_effects :: "error + world \<Rightarrow> effect list option" where
  "run_effects result = (case result of Inl e \<Rightarrow> None | Inr w \<Rightarrow> Some (effects w))"

text \<open>
  An import line of the main script, naming \<^verbatim>\<open>Foo.ps1\<close> in a \<^verbatim>\<open>Modules\<close> folder of
  drive C, and the path of that module below the module directory.
\<close>

definition foo_import_text :: string where
  "foo_import_text =
     ''. C:'' @ [CHR 0x5C] @ ''proj'' @ [CHR 0x5C] @ ''Modules'' @ [CHR 0x5C] @ ''Foo.ps1''"

definition foo_import :: string where
  "foo_import = foo_import_text @ [CHR 0x0A]"

definition foo_captured :: string where
  "foo_captured = ''C:'' @ [CHR 0x5C] @ ''proj'' @ [CHR 0x5C] @ ''Modules'' @ [CHR 0x5C] @ ''Foo.ps1''"

definition foo_module :: string where
  "foo_module = ''Modules'' @ [CHR 0x5C] @ ''Foo.ps1''"

text \<open>The text of a module stored with Windows and old Macintosh line ends.\<close>

definition crlf_module_text :: string where
  "crlf_module_text =
     ''X'' @ [CHR 0x0D, CHR 0x0A] @ ''# c'' @ [CHR 0x0D, CHR 0x0A] @ ''Y'' @ [CHR 0x0D]"




text \<open>The artifact of a build at version 1.0.0.0.\<close>

definition demo_output :: string where
  "demo_output = ''build'' @ [CHR 0x5C] @ ''winDragon_1.0.0.0.ps1''"

text \<open>
  A project directory with a main script of one line and a launcher of one line, and no
  settings file; the patched launcher of a build, and the settings after the first build.
\<close>

definition demo_world :: world where
  "demo_world =
     world_of [(''winDragon.ps1'', File ''Write-Host 1 # hi\<newline>''),
               (''launcher.ps1'', File ''$winDragonScriptPath = 1\<newline>'')]"

definition demo_launcher :: string where
  "demo_launcher = ''build'' @ [CHR 0x5C] @ ''launcher.ps1''"

definition demo_advanced_settings :: json where
  "demo_advanced_settings =
     JObj [(''defaultSource'', JStr (''D:'' @ [CHR 0x5C])),
           (''defaultDestination'', JStr (''B:'' @ [CHR 0x5C] @ ''DayAfter'')),
           (''version'', JObj [(''major'', JInt 1), (''minor'', JInt 0), (''patch'', JInt 0),
                              (''build'', JInt 1)])]"

section \<open>Properties of the line cleaner\<close>

lemma clean_loop_acc: "clean_loop inside lines acc = acc @ clean_loop inside lines []"
proof (induction lines arbitrary: inside acc)
  case Nil
  show ?case by simp
next
  case (Cons line rest)
  show ?case
    using Cons.IH [of _ "acc @ [rstrip line]"] Cons.IH [of _ "[rstrip line]"]
      Cons.IH [of _ "acc @ [strip (sub_comment line)]"] Cons.IH [of _ "[strip (sub_comment line)]"]
      Cons.IH [of _ acc]
    by (simp add: Let_def)
qed









text \<open>Every line that \<^verbatim>\<open>readlines\<close> gives is such a single line.\<close>

lemma lines_from_single_line:
  "CHR 0x0A \<notin> set cur \<Longrightarrow>
   \<forall>l \<in> set (lines_from cur content). CHR 0x0A \<notin> set (butlast l)"
proof (induction content arbitrary: cur)
  case Nil
  then show ?case by (auto dest: in_set_butlastD)
next
  case (Cons c cs)
  show ?case
  proof (cases "c = CHR 0x0A")
    case True
    then show ?thesis using Cons.IH [of "[]"] Cons.prems by simp
  next
    case False
    then show ?thesis using Cons.IH [of "cur @ [c]"] Cons.prems by simp
  qed
qed

lemma readlines_single_line:
  "\<forall>l \<in> set (readlines content). CHR 0x0A \<notin> set (butlast l)"
  unfolding readlines_def by (rule lines_from_single_line) simp

lemma concat_lines_from: "concat (lines_from cur content) = cur @ content"
  by (induction content arbitrary: cur) auto

lemma universal_newlines_no_cr: "CHR 0x0D \<notin> set (universal_newlines content)"
  by (induction content rule: universal_newlines.induct) auto

lemma readlines_crlf_module: "readlines crlf_module_text = [''X\<newline>'', ''# c\<newline>'', ''Y\<newline>'']"
  by (simp add: readlines_def crlf_module_text_def)




lemma strip_empty_all_space: "strip s = [] \<Longrightarrow> \<forall>c \<in> set s. is_space c"
proof -
  assume "strip s = []"
  then have "\<forall>c \<in> set (rstrip s). is_space c"
    by (simp add: strip_def dropWhile_eq_Nil_conv)
  moreover have "rev s = takeWhile is_space (rev s) @ rev (rstrip s)"
    by (simp add: rstrip_def)
  then have "set s = set (takeWhile is_space (rev s)) \<union> set (rstrip s)"
    by (metis set_append set_rev)
  ultimately show ?thesis by (auto dest: set_takeWhileD)
qed

lemma contains_subset: "contains sub s \<Longrightarrow> set sub \<subseteq> set s"
proof (induction s)
  case Nil
  then show ?case by simp
next
  case (Cons c cs)
  from Cons.prems have "prefix sub (c # cs) \<or> contains sub cs" by simp
  then show ?case
  proof
    assume "prefix sub (c # cs)"
    then show ?thesis by (rule set_mono_prefix)
  next
    assume "contains sub cs"
    then have "set sub \<subseteq> set cs" by (rule Cons.IH)
    then show ?thesis by auto
  qed
qed

lemma blank_no_trigger: "strip s = [] \<Longrightarrow> \<not> contains ''Show-Dragon'' s"
proof
  assume b: "strip s = []" and c: "contains ''Show-Dragon'' s"
  from contains_subset [OF c] have "CHR ''S'' \<in> set s" by auto
  with strip_empty_all_space [OF b] have "is_space (CHR ''S'')" by blast
  then show False by (simp add: is_space_def)
qed

lemma clean_loop_inside:
  "\<forall>l \<in> set middle. strip l \<noteq> [] \<Longrightarrow>
   clean_loop True (middle @ after) acc = clean_loop True after (acc @ map rstrip middle)"
  by (induction middle arbitrary: acc) (simp_all add: Let_def)

lemma clean_loop_outside:
  "\<forall>l \<in> set plain. \<not> contains ''Show-Dragon'' l \<Longrightarrow>
   clean_loop False (plain @ after) acc =
   clean_loop False after
     (acc @ concat (map (\<lambda>l. if strip (sub_comment l) = [] then []
                               else [strip (sub_comment l)]) plain))"
  by (induction plain arbitrary: acc) (simp_all add: Let_def)

text \<open>
  Claim C7, as amended.  A trigger line, then lines that are not blank, then a blank line,
  in one call: all of them, the blank line included, are appended with only their
  trailing white space removed and with their comments kept, and the flag is cleared at
  the blank line.  The lines after the blank line are cleaned of comments and dropped
  when empty up to the next line that holds the trigger; from that line on the cleaner
  goes on as a call on the remaining lines does, so a later trigger line starts a new
  verbatim block.
\<close>

theorem banner_block_verbatim:
  assumes "contains ''Show-Dragon'' trigger"
    and "\<forall>l \<in> set middle. strip l \<noteq> []"
    and "strip blank = []"
    and "\<forall>l \<in> set plain. \<not> contains ''Show-Dragon'' l"
  shows "clean_lines (trigger # middle @ [blank] @ plain @ later) =
         map rstrip (trigger # middle @ [blank])
         @ concat (map (\<lambda>l. if strip (sub_comment l) = [] then []
                             else [strip (sub_comment l)]) plain)
         @ clean_lines later"
proof -
  have t: "strip trigger \<noteq> []"
    using assms(1) blank_no_trigger by blast
  have b: "\<not> contains ''Show-Dragon'' blank"
    using assms(3) by (rule blank_no_trigger)
  have "clean_lines (trigger # middle @ [blank] @ plain @ later) =
        clean_loop True (middle @ ([blank] @ plain @ later)) [rstrip trigger]"
    using assms(1) t by (simp add: clean_lines_def)
  also have "\<dots> = clean_loop True ([blank] @ plain @ later)
                     ([rstrip trigger] @ map rstrip middle)"
    using assms(2) by (rule clean_loop_inside)
  also have "\<dots> = clean_loop False (plain @ later) (map rstrip (trigger # middle @ [blank]))"
    using assms(3) by (simp add: Let_def)
  also have "\<dots> = clean_loop False later
                     (map rstrip (trigger # middle @ [blank])
                      @ concat (map (\<lambda>l. if strip (sub_comment l) = [] then []
                                          else [strip (sub_comment l)]) plain))"
    using assms(4) by (rule clean_loop_outside)
  also have "\<dots> = (map rstrip (trigger # middle @ [blank])
                      @ concat (map (\<lambda>l. if strip (sub_comment l) = [] then []
                                          else [strip (sub_comment l)]) plain))
                     @ clean_loop False later []"
    by (rule clean_loop_acc)
  finally show ?thesis
    by (simp only: clean_lines_def append_assoc)
qed

theorem banner_block_verbatim_witness:
  "contains ''Show-Dragon'' ''function Show-Dragon {  ''
   \<and> strip ''  ** # art  '' \<noteq> []
   \<and> strip ''  '' = []
   \<and> \<not> contains ''Show-Dragon'' ''a # b''
   \<and> \<not> contains ''Show-Dragon'' ''# only''
   \<and> clean_lines (''function Show-Dragon {  '' # [''  ** # art  ''] @ [''  '']
        @ [''a # b'', ''# only''] @ [''Show-Dragon # call'', ''x # y'']) =
       [''function Show-Dragon {'', ''  ** # art'', [], ''a'', ''Show-Dragon # call'', ''x # y'']"
proof -
  have h1: "contains ''Show-Dragon'' ''function Show-Dragon {  ''" by simp
  have h2: "\<forall>l \<in> set [''  ** # art  '']. strip l \<noteq> []"
    by (simp add: strip_def rstrip_def is_space_def)
  have h3: "strip ''  '' = []" by (simp add: strip_def rstrip_def is_space_def)
  have h4: "\<forall>l \<in> set [''a # b'', ''# only'']. \<not> contains ''Show-Dragon'' l" by simp
  have r: "clean_lines [''Show-Dragon # call'', ''x # y''] = [''Show-Dragon # call'', ''x # y'']"
    by (simp add: clean_lines_def strip_def rstrip_def is_space_def)
  show ?thesis
    using banner_block_verbatim [OF h1 h2 h3 h4, of "[''Show-Dragon # call'', ''x # y'']"]
      h1 h2 h3 h4
    by (simp add: r strip_def rstrip_def is_space_def)
qed

text \<open>
  Claim C7 as stated fails for the lines after the blank line when one of them holds the
  trigger: that line and the lines after it, up to the next blank line, keep their
  comments.
\<close>

theorem later_trigger_line_counterexample:
  "contains ''Show-Dragon'' ''Show-Dragon''
   \<and> strip ''art'' \<noteq> []
   \<and> strip [] = []
   \<and> clean_lines [''Show-Dragon'', ''art'', [], ''Show-Dragon # call'', ''x # y''] =
       [''Show-Dragon'', ''art'', [], ''Show-Dragon # call'', ''x # y'']"
  by (simp add: clean_lines_def strip_def rstrip_def is_space_def)

text \<open>
  Claim C5, as amended.  The cleaner takes its lines only: every call starts with the
  flag false, the flag lives between the lines of that call and is not returned.  So a
  call on one line keeps the line (with its trailing white space removed) exactly when
  the line itself holds the trigger, and cleans it otherwise, whatever the calls before.
\<close>

theorem clean_lines_single_call:
  "clean_lines [line] =
     (if contains ''Show-Dragon'' line then [rstrip line]
      else if strip (sub_comment line) = [] then []
      else [strip (sub_comment line)])"
  by (simp add: clean_lines_def Let_def)

theorem clean_lines_single_call_witness:
  "clean_lines [''Show-Dragon # x  ''] = [''Show-Dragon # x''] \<and> clean_lines [''# art''] = []"
  using clean_lines_single_call [of "''Show-Dragon # x  ''"] clean_lines_single_call [of "''# art''"]
  by (simp add: strip_def rstrip_def is_space_def)

text \<open>
  Claim C5 as stated fails: a banner block passed in one call is kept whole, and the same
  block passed one line per call loses its commented line and its blank line.
\<close>

theorem banner_fed_line_by_line_counterexample:
  "clean_lines [''Show-Dragon'', ''# art'', ''''] = [''Show-Dragon'', ''# art'', '''']
   \<and> clean_lines [''Show-Dragon''] @ clean_lines [''# art''] @ clean_lines [''''] = [''Show-Dragon'']"
  by (simp add: clean_lines_def strip_def rstrip_def is_space_def)

section \<open>Properties of the launcher patcher\<close>

lemma patch_loop_found:
  "patch_loop output_filename True lines updated = updated @ map rstrip lines"
  by (induction lines arbitrary: updated) simp_all

lemma patch_loop_before:
  "\<forall>l \<in> set before. \<not> contains ''$winDragonScriptPath'' l \<Longrightarrow>
   patch_loop output_filename False (before @ after) updated =
   patch_loop output_filename False after (updated @ map rstrip before)"
  by (induction before arbitrary: updated) simp_all

text \<open>
  Claim C8, as amended.  The first launcher line that holds the token is replaced by two
  entries, the assignment of the URL built from the output filename and the snippet as
  one block; every other line, before it or after it and with the token or without, is
  passed through with its trailing white space removed.
\<close>

theorem patch_first_token_line:
  assumes "\<forall>l \<in> set before. \<not> contains ''$winDragonScriptPath'' l"
    and "contains ''$winDragonScriptPath'' line"
  shows "patch_loop output_filename False (before @ [line] @ after) [] =
         map rstrip before @ [url_assignment output_filename, ps_code_to_insert]
         @ map rstrip after"
proof -
  have "patch_loop output_filename False (before @ ([line] @ after)) [] =
        patch_loop output_filename False ([line] @ after) ([] @ map rstrip before)"
    using assms(1) by (rule patch_loop_before)
  also have "\<dots> = map rstrip before @ [url_assignment output_filename, ps_code_to_insert]
                   @ map rstrip after"
    using assms(2) by (simp add: patch_loop_found)
  finally show ?thesis .
qed

theorem patch_first_token_line_witness:
  "\<not> contains ''$winDragonScriptPath'' ''# top  \<newline>''
   \<and> contains ''$winDragonScriptPath'' ''$winDragonScriptPath = 1\<newline>''
   \<and> patch_loop ''winDragon_1.0.0.0.ps1'' False
         ([''# top  \<newline>''] @ [''$winDragonScriptPath = 1\<newline>'']
          @ [''Start $winDragonScriptPath  \<newline>'']) [] =
       [''# top'', url_assignment ''winDragon_1.0.0.0.ps1'', ps_code_to_insert,
        ''Start $winDragonScriptPath'']"
proof -
  have h1: "\<forall>l \<in> set [''# top  \<newline>'']. \<not> contains ''$winDragonScriptPath'' l" by simp
  have h2: "contains ''$winDragonScriptPath'' ''$winDragonScriptPath = 1\<newline>''" by simp
  show ?thesis
    using patch_first_token_line [OF h1 h2, of "''winDragon_1.0.0.0.ps1''"
        "[''Start $winDragonScriptPath  \<newline>'']"] h1 h2
    by (simp add: rstrip_def is_space_def)
qed

text \<open>
  Claim C8 as stated fails for a later line that holds the token: it is not passed
  through unmodified, its trailing white space is removed like that of any other line.
\<close>

theorem later_token_line_counterexample:
  "contains ''$winDragonScriptPath'' ''Start $winDragonScriptPath  \<newline>''
   \<and> patch_loop ''winDragon_1.0.0.0.ps1'' False
         [''$winDragonScriptPath = 1\<newline>'', ''Start $winDragonScriptPath  \<newline>''] [] =
       [url_assignment ''winDragon_1.0.0.0.ps1'', ps_code_to_insert,
        ''Start $winDragonScriptPath'']
   \<and> ''Start $winDragonScriptPath'' \<noteq> ''Start $winDragonScriptPath  \<newline>''"
  by (simp add: rstrip_def is_space_def)


section \<open>Properties of the settings store\<close>

lemma update_missing_key:
  "key \<notin> fst ` set entries \<Longrightarrow> AList.update key v entries = entries @ [(key, v)]"
  by (induction entries) auto

text \<open>
  Claim C1.  On settings whose version holds an integer build: a build below 9999 is
  increased by one and the patch is left as it is (9998 gives 9999); a build of 9999 or
  more is set to 0 and the integer patch is increased by one; every other entry of the
  version and of the settings is kept.  In both cases the call then writes the settings
  file: afterwards the file holds the encoding of the whole updated settings, the write
  is the one effect the call adds, and no other path is touched.
\<close>

theorem update_build_number_advances:
  assumes "map_of entries ''version'' = Some (JObj ver)"
    and "map_of ver ''build'' = Some (JInt b)"
    and "9999 \<le> b \<longrightarrow> map_of ver ''patch'' = Some (JInt p)"
  shows "\<exists>ver' w'. update_build_number L settings_file (JObj entries) w =
            Inr (JObj (AList.update ''version'' (JObj ver') entries), w')
          \<and> nodes w' settings_file =
              Some (File (json_dumps L (JObj (AList.update ''version'' (JObj ver') entries))))
          \<and> effects w' = effects w @
              [Wrote settings_file
                 (json_dumps L (JObj (AList.update ''version'' (JObj ver') entries)))]
          \<and> (\<forall>path. path \<noteq> settings_file \<longrightarrow> nodes w' path = nodes w path)
          \<and> map_of ver' ''build'' = Some (JInt (if b < 9999 then b + 1 else 0))
          \<and> map_of ver' ''patch'' =
              (if b < 9999 then map_of ver ''patch'' else Some (JInt (p + 1)))
          \<and> (\<forall>k. k \<noteq> ''build'' \<and> k \<noteq> ''patch'' \<longrightarrow> map_of ver' k = map_of ver k)"
proof (cases "b < 9999")
  case True
  have "advance_version (JObj ver) = Inr (JObj (AList.update ''build'' (JInt (b + 1)) ver))"
    using assms(2) True by (simp add: advance_version_def)
  then show ?thesis
    using assms(1) True
    by (intro exI [of _ "AList.update ''build'' (JInt (b + 1)) ver"])
       (simp add: update_build_number_def update_conv' write_text_def)
next
  case False
  then have p: "map_of ver ''patch'' = Some (JInt p)" using assms(3) by simp
  have "advance_version (JObj ver) =
        Inr (JObj (AList.update ''patch'' (JInt (p + 1)) (AList.update ''build'' (JInt 0) ver)))"
    using assms(2) False p by (simp add: advance_version_def update_conv')
  then show ?thesis
    using assms(1) False
    by (intro exI [of _ "AList.update ''patch'' (JInt (p + 1))
                          (AList.update ''build'' (JInt 0) ver)"])
       (simp add: update_build_number_def update_conv' write_text_def)
qed

theorem update_build_number_advances_witness:
  "map_of [(''version'', JObj [(''patch'', JInt 2), (''build'', JInt 9998)])] ''version'' =
     Some (JObj [(''patch'', JInt 2), (''build'', JInt 9998)])
   \<and> map_of [(''patch'', JInt 2), (''build'', JInt 9998)] ''build'' = Some (JInt 9998)
   \<and> (\<exists>w'. update_build_number demo_lib ''settings.json''
              (JObj [(''version'', JObj [(''patch'', JInt 2), (''build'', JInt 9998)])])
              (world_of []) =
            Inr (JObj [(''version'', JObj [(''patch'', JInt 2), (''build'', JInt 9999)])], w')
          \<and> nodes w' ''settings.json'' =
              Some (File (demo_dumps
                (JObj [(''version'', JObj [(''patch'', JInt 2), (''build'', JInt 9999)])])))
          \<and> effects w' =
              [Wrote ''settings.json'' (demo_dumps
                (JObj [(''version'', JObj [(''patch'', JInt 2), (''build'', JInt 9999)])]))])
   \<and> map_of [(''version'', JObj [(''patch'', JInt 2), (''build'', JInt 9999)])] ''version'' =
     Some (JObj [(''patch'', JInt 2), (''build'', JInt 9999)])
   \<and> map_of [(''patch'', JInt 2), (''build'', JInt 9999)] ''build'' = Some (JInt 9999)
   \<and> map_of [(''patch'', JInt 2), (''build'', JInt 9999)] ''patch'' = Some (JInt 2)
   \<and> (\<exists>w'. update_build_number demo_lib ''settings.json''
              (JObj [(''version'', JObj [(''patch'', JInt 2), (''build'', JInt 9999)])])
              (world_of []) =
            Inr (JObj [(''version'', JObj [(''patch'', JInt 3), (''build'', JInt 0)])], w')
          \<and> nodes w' ''settings.json'' =
              Some (File (demo_dumps
                (JObj [(''version'', JObj [(''patch'', JInt 3), (''build'', JInt 0)])])))
          \<and> effects w' =
              [Wrote ''settings.json'' (demo_dumps
                (JObj [(''version'', JObj [(''patch'', JInt 3), (''build'', JInt 0)])]))])"
proof -
  have a1: "map_of [(''version'', JObj [(''patch'', JInt 2), (''build'', JInt 9998)])] ''version'' =
     Some (JObj [(''patch'', JInt 2), (''build'', JInt 9998)])" by simp
  have a2: "map_of [(''patch'', JInt 2), (''build'', JInt 9998)] ''build'' = Some (JInt 9998)"
    by simp
  have a3: "(9999::int) \<le> 9998 \<longrightarrow>
     map_of [(''patch'', JInt 2), (''build'', JInt 9998)] ''patch'' = Some (JInt 2)" by simp
  have b1: "map_of [(''version'', JObj [(''patch'', JInt 2), (''build'', JInt 9999)])] ''version'' =
     Some (JObj [(''patch'', JInt 2), (''build'', JInt 9999)])" by simp
  have b2: "map_of [(''patch'', JInt 2), (''build'', JInt 9999)] ''build'' = Some (JInt 9999)"
    by simp
  have b3: "(9999::int) \<le> 9999 \<longrightarrow>
     map_of [(''patch'', JInt 2), (''build'', JInt 9999)] ''patch'' = Some (JInt 2)" by simp
  have r1: "\<exists>w'. update_build_number demo_lib ''settings.json''
              (JObj [(''version'', JObj [(''patch'', JInt 2), (''build'', JInt 9998)])])
              (world_of []) =
            Inr (JObj [(''version'', JObj [(''patch'', JInt 2), (''build'', JInt 9999)])], w')
          \<and> nodes w' ''settings.json'' =
              Some (File (demo_dumps
                (JObj [(''version'', JObj [(''patch'', JInt 2), (''build'', JInt 9999)])])))
          \<and> effects w' =
              [Wrote ''settings.json'' (demo_dumps
                (JObj [(''version'', JObj [(''patch'', JInt 2), (''build'', JInt 9999)])]))]"
    by (simp add: update_build_number_def advance_version_def write_text_def world_of_def
          demo_lib_def del: demo_dumps.simps)
  have r2: "\<exists>w'. update_build_number demo_lib ''settings.json''
              (JObj [(''version'', JObj [(''patch'', JInt 2), (''build'', JInt 9999)])])
              (world_of []) =
            Inr (JObj [(''version'', JObj [(''patch'', JInt 3), (''build'', JInt 0)])], w')
          \<and> nodes w' ''settings.json'' =
              Some (File (demo_dumps
                (JObj [(''version'', JObj [(''patch'', JInt 3), (''build'', JInt 0)])])))
          \<and> effects w' =
              [Wrote ''settings.json'' (demo_dumps
                (JObj [(''version'', JObj [(''patch'', JInt 3), (''build'', JInt 0)])]))]"
    by (simp add: update_build_number_def advance_version_def write_text_def world_of_def
          demo_lib_def del: demo_dumps.simps)
  show ?thesis
    using update_build_number_advances [OF a1 a2 a3, of demo_lib "''settings.json''" "world_of []"]
      update_build_number_advances [OF b1 b2 b3, of demo_lib "''settings.json''" "world_of []"]
      a1 a2 b1 b2 b3 r1 r2
    by simp
qed

text \<open>
  Claim C9.  When the settings file is absent, \<^verbatim>\<open>read_settings\<close> writes the encoding of
  the default object (source the root of drive D, destination \<^verbatim>\<open>DayAfter\<close> on
  drive B, version 1.0.0.0) to the file and returns that object.  When the file holds a
  JSON object without the key \<^verbatim>\<open>version\<close>, it returns the decoded entries, unchanged
  and in their order, followed by the default version, and writes nothing.
\<close>

theorem read_settings_defaults_and_repair:
  "(\<not> path_exists w settings_file \<longrightarrow>
      read_settings L settings_file w =
        Inr (JObj [(''defaultSource'', JStr (''D:'' @ [CHR 0x5C])),
                   (''defaultDestination'', JStr (''B:'' @ [CHR 0x5C] @ ''DayAfter'')),
                   (''version'', JObj [(''major'', JInt 1), (''minor'', JInt 0),
                                      (''patch'', JInt 0), (''build'', JInt 0)])],
             write_text settings_file
               (json_dumps L
                  (JObj [(''defaultSource'', JStr (''D:'' @ [CHR 0x5C])),
                         (''defaultDestination'', JStr (''B:'' @ [CHR 0x5C] @ ''DayAfter'')),
                         (''version'', JObj [(''major'', JInt 1), (''minor'', JInt 0),
                                            (''patch'', JInt 0), (''build'', JInt 0)])])) w))
   \<and> (nodes w settings_file = Some (File text) \<and> json_loads L text = Some (JObj entries)
        \<and> ''version'' \<notin> fst ` set entries \<longrightarrow>
      read_settings L settings_file w =
        Inr (JObj (entries @ [(''version'', JObj [(''major'', JInt 1), (''minor'', JInt 0),
                                                (''patch'', JInt 0), (''build'', JInt 0)])]),
             w))"
  by (simp add: read_settings_def path_exists_def read_text_def default_settings_def
        default_version_def update_missing_key)

theorem read_settings_defaults_and_repair_witness:
  "\<not> path_exists (world_of []) ''settings.json''
   \<and> nodes (write_text ''settings.json'' (demo_dumps default_settings) (world_of []))
        ''settings.json'' = Some (File (demo_dumps default_settings))
   \<and> read_settings demo_lib ''settings.json'' (world_of []) =
        Inr (default_settings,
             write_text ''settings.json'' (demo_dumps default_settings) (world_of []))
   \<and> demo_loads (demo_dumps (JObj [(''defaultSource'', JStr ''E:'')])) =
        Some (JObj [(''defaultSource'', JStr ''E:'')])
   \<and> ''version'' \<notin> fst ` set [(''defaultSource'', JStr ''E:'')]
   \<and> read_settings demo_lib ''settings.json''
        (world_of [(''settings.json'', File (demo_dumps (JObj [(''defaultSource'', JStr ''E:'')])))]) =
        Inr (JObj [(''defaultSource'', JStr ''E:''), (''version'', default_version)],
             world_of [(''settings.json'', File (demo_dumps (JObj [(''defaultSource'', JStr ''E:'')])))])"
proof -
  have l: "demo_loads (demo_dumps (JObj [(''defaultSource'', JStr ''E:'')])) =
        Some (JObj [(''defaultSource'', JStr ''E:'')])"
    by (simp add: demo_loads_def demo_documents_def default_settings_def default_version_def
          quoted_def)
  show ?thesis
    using l read_settings_defaults_and_repair [of "world_of []" "''settings.json''" demo_lib]
      read_settings_defaults_and_repair
        [of "world_of [(''settings.json'', File (demo_dumps (JObj [(''defaultSource'', JStr ''E:'')])))]"
            "''settings.json''" demo_lib "demo_dumps (JObj [(''defaultSource'', JStr ''E:'')])"
            "[(''defaultSource'', JStr ''E:'')]"]
    by (simp add: path_exists_def world_of_def write_text_def demo_lib_def default_settings_def
          default_version_def del: demo_dumps.simps)
qed

section \<open>Properties of the script combiner\<close>

lemma foo_import_match: "module_match foo_import = Some foo_captured"
  by (simp add: module_match_def foo_import_def foo_import_text_def foo_captured_def
        is_space_def suffix_to_prefix)

lemma foo_import_no_trigger: "\<not> contains ''function Show-Dragon'' foo_import"
  by (simp add: foo_import_def foo_import_text_def)

lemma foo_resolved: "path_join demo_lib ''Modules'' (path_name demo_lib foo_captured) = foo_module"
  by (simp add: demo_lib_def win_join_def win_name_def foo_captured_def foo_module_def)

lemma combine_effects:
  assumes "combine_powershell_scripts L source_file modules_folder output_file w = Inr w'"
  shows "\<exists>text. effects w' =
           effects w @ (if nodes w ''build'' = None then [Mkdir ''build''] else [])
           @ [Wrote output_file text]"
  using assms
  by (auto simp: combine_powershell_scripts_def ensure_directory_exists_def write_text_def
        split: sum.splits option.splits node.splits)

text \<open>
  Claim C3, as amended.  A line of the main script that is processed outside the verbatim
  block (the flag is false and the line does not start the block) and matches the import
  pattern, when the path made of the module directory and the name of the captured path
  is a file: all lines of that file are appended as the text-mode read gives them (every
  line end as one line feed, and together the text of the file read with universal
  newlines), neither cleaned nor trimmed, and the loop goes on with the next line of the
  main script, so the module's own lines are never matched against the import pattern.
\<close>

theorem import_line_inlined:
  assumes "\<not> contains ''function Show-Dragon'' line"
    and "module_match line = Some module_path"
    and "nodes w (path_join L modules_folder (path_name L module_path)) = Some (File stored)"
  shows "combine_loop L modules_folder w False (line # rest) combined =
           combine_loop L modules_folder w False rest (combined @ readlines stored)
         \<and> concat (readlines stored) = universal_newlines stored"
  using assms
  by (simp add: path_exists_def read_file_def read_text_def readlines_def concat_lines_from)

theorem import_line_inlined_witness:
  "\<not> contains ''function Show-Dragon'' foo_import
   \<and> module_match foo_import = Some foo_captured
   \<and> nodes (world_of [(foo_module, File crlf_module_text)])
        (path_join demo_lib ''Modules'' (path_name demo_lib foo_captured)) =
      Some (File crlf_module_text)
   \<and> combine_loop demo_lib ''Modules'' (world_of [(foo_module, File crlf_module_text)])
        False [foo_import] [] = Inr [''X\<newline>'', ''# c\<newline>'', ''Y\<newline>'']
   \<and> universal_newlines crlf_module_text = ''X\<newline># c\<newline>Y\<newline>''"
proof -
  have h: "nodes (world_of [(foo_module, File crlf_module_text)])
        (path_join demo_lib ''Modules'' (path_name demo_lib foo_captured)) =
      Some (File crlf_module_text)"
    by (simp add: foo_resolved world_of_def)
  have u: "universal_newlines crlf_module_text = ''X\<newline># c\<newline>Y\<newline>''"
    by (simp add: crlf_module_text_def)
  show ?thesis
    using import_line_inlined [OF foo_import_no_trigger foo_import_match h, of "[]" "[]"]
      foo_import_no_trigger foo_import_match h u
    by (simp add: readlines_crlf_module)
qed

text \<open>
  Claim C3 as stated fails inside the verbatim block: there a line that matches the import
  pattern is copied with its trailing white space removed, and the lines of the existing
  module file are not appended.
\<close>

theorem import_line_in_verbatim_block_counterexample:
  "module_match foo_import = Some foo_captured
   \<and> nodes (world_of [(foo_module, File ''X\<newline>'')])
        (path_join demo_lib ''Modules'' (path_name demo_lib foo_captured)) =
      Some (File ''X\<newline>'')
   \<and> combine_loop demo_lib ''Modules'' (world_of [(foo_module, File ''X\<newline>'')]) False
        [''function Show-Dragon {\<newline>'', foo_import, ''\<newline>''] [] =
      Inr [''function Show-Dragon {'', foo_import_text, '''']"
proof -
  have r: "rstrip foo_import = foo_import_text"
    by (simp add: foo_import_def foo_import_text_def rstrip_def is_space_def)
  have s: "strip foo_import \<noteq> []"
    by (simp add: foo_import_def foo_import_text_def strip_def rstrip_def is_space_def)
  have t: "rstrip ''function Show-Dragon {\<newline>'' = ''function Show-Dragon {''"
    "strip ''function Show-Dragon {\<newline>'' \<noteq> []"
    "rstrip ''\<newline>'' = []" "strip ''\<newline>'' = []"
    by (simp_all add: strip_def rstrip_def is_space_def)
  show ?thesis
    by (simp add: foo_import_match foo_import_no_trigger foo_resolved world_of_def r s t)
qed

text \<open>
  Claim C4, as amended.  A line of the main script that is processed outside the verbatim
  block and matches the import pattern, when nothing exists at the resolved module path:
  the loop appends nothing for it and raises no error, so neither module content nor
  the import line is added; and a run of the combiner prints nothing.
\<close>

theorem missing_module_skipped:
  assumes "\<not> contains ''function Show-Dragon'' line"
    and "module_match line = Some module_path"
    and "nodes w (path_join L modules_folder (path_name L module_path)) = None"
  shows "combine_loop L modules_folder w False (line # rest) combined =
           combine_loop L modules_folder w False rest combined
         \<and> combine_loop L modules_folder w False [line] [] = Inr []
         \<and> (combine_powershell_scripts L source_file modules_folder output_file w = Inr w' \<longrightarrow>
              (\<forall>text. Printed text \<in> set (effects w') \<longrightarrow> Printed text \<in> set (effects w)))"
proof -
  have "combine_loop L modules_folder w False (line # rest) combined =
        combine_loop L modules_folder w False rest combined" for rest combined
    using assms by (simp add: path_exists_def)
  moreover have "\<forall>text. Printed text \<in> set (effects w') \<longrightarrow> Printed text \<in> set (effects w)"
    if "combine_powershell_scripts L source_file modules_folder output_file w = Inr w'"
    using combine_effects [OF that] by auto
  ultimately show ?thesis by simp
qed

theorem missing_module_skipped_witness:
  "\<not> contains ''function Show-Dragon'' foo_import
   \<and> module_match foo_import = Some foo_captured
   \<and> nodes (world_of []) (path_join demo_lib ''Modules'' (path_name demo_lib foo_captured)) = None
   \<and> combine_loop demo_lib ''Modules'' (world_of []) False
        [''a # b\<newline>'', foo_import, ''c\<newline>''] [] = Inr [''a'', ''c'']"
proof -
  have h: "nodes (world_of []) (path_join demo_lib ''Modules'' (path_name demo_lib foo_captured)) = None"
    by (simp add: world_of_def)
  have a: "module_match ''a # b\<newline>'' = None" by (simp add: module_match_def)
  have c: "module_match ''c\<newline>'' = None" by (simp add: module_match_def)
  show ?thesis
    using missing_module_skipped [OF foo_import_no_trigger foo_import_match h, of "[''c\<newline>'']" "[''a'']"]
      foo_import_no_trigger foo_import_match h a c
    by (simp add: clean_lines_def strip_def rstrip_def is_space_def)
qed

text \<open>
  Claim C4 as stated fails inside the verbatim block: there the import line of a missing
  module is itself copied to the combined output.
\<close>

theorem missing_module_in_verbatim_block_counterexample:
  "module_match foo_import = Some foo_captured
   \<and> nodes (world_of []) (path_join demo_lib ''Modules'' (path_name demo_lib foo_captured)) = None
   \<and> combine_loop demo_lib ''Modules'' (world_of []) False
        [''function Show-Dragon {\<newline>'', ''  art\<newline>'', foo_import, ''\<newline>''] [] =
      Inr [''function Show-Dragon {'', ''  art'', foo_import_text, '''']"
proof -
  have r: "rstrip foo_import = foo_import_text"
    by (simp add: foo_import_def foo_import_text_def rstrip_def is_space_def)
  have s: "strip foo_import \<noteq> []"
    by (simp add: foo_import_def foo_import_text_def strip_def rstrip_def is_space_def)
  have t: "rstrip ''function Show-Dragon {\<newline>'' = ''function Show-Dragon {''"
    "strip ''function Show-Dragon {\<newline>'' \<noteq> []"
    "rstrip ''  art\<newline>'' = ''  art''" "strip ''  art\<newline>'' \<noteq> []"
    "rstrip ''\<newline>'' = []" "strip ''\<newline>'' = []"
    by (simp_all add: strip_def rstrip_def is_space_def)
  show ?thesis
    by (simp add: foo_import_match foo_import_no_trigger world_of_def r s t)
qed









section \<open>Properties of the orchestrator\<close>

lemma delete_effects:
  "effects (delete_build_directory L directory w) =
   effects w @ (if nodes w directory = Some Dir then [Rmtree directory] else [])"
  by (simp add: delete_build_directory_def path_exists_def)

lemma delete_not_dir: "nodes (delete_build_directory L directory w) directory \<noteq> Some Dir"
  by (simp add: delete_build_directory_def path_exists_def)

lemma read_settings_effects:
  assumes "read_settings L settings_file w = Inr (settings, w')"
  shows "effects w' = effects w @
           (if nodes w settings_file = None
            then [Wrote settings_file (json_dumps L default_settings)] else [])"
    and "\<forall>p. p \<noteq> settings_file \<longrightarrow> nodes w' p = nodes w p"
  using assms
  by (auto simp: read_settings_def path_exists_def write_text_def
        split: if_splits sum.splits option.splits bool.splits)

lemma update_build_number_effects:
  assumes "update_build_number L settings_file settings w = Inr (settings', w')"
  shows "effects w' = effects w @ [Wrote settings_file (json_dumps L settings')]"
  using assms
  by (auto simp: update_build_number_def write_text_def split: sum.splits)

lemma main_steps:
  assumes "main L w = Inr w'"
  shows "\<exists>settings w2 version version_string w3 settings' w4 w5.
           read_settings L ''settings.json'' (delete_build_directory L ''build'' w) =
             Inr (settings, w2)
           \<and> getitem settings ''version'' = Inr version
           \<and> get_version_string L version = Inr version_string
           \<and> combine_powershell_scripts L ''winDragon.ps1'' ''Modules''
                (path_join L ''build'' (''winDragon_'' @ version_string @ ''.ps1'')) w2 = Inr w3
           \<and> update_build_number L ''settings.json'' settings w3 = Inr (settings', w4)
           \<and> update_launcher_script L ''launcher.ps1''
                (path_join L ''build'' (''winDragon_'' @ version_string @ ''.ps1'')) w4 = Inr w5
           \<and> w' = print_line (''Combined script has been saved to ''
                     @ path_join L ''build'' (''winDragon_'' @ version_string @ ''.ps1'')) w5"
  using assms
  by (simp add: main_def Let_def split: sum.splits prod.splits)

lemma combine_steps:
  assumes "combine_powershell_scripts L source_file modules_folder output_file w = Inr w'"
  shows "\<exists>w1 main_script_lines combined.
           ensure_directory_exists ''build'' w = Inr w1
           \<and> read_file source_file w1 = Inr main_script_lines
           \<and> combine_loop L modules_folder w1 False main_script_lines [] = Inr combined
           \<and> w' = write_text output_file (join_nl combined) w1"
  using assms
  by (simp add: combine_powershell_scripts_def split: sum.splits)

lemma ensure_effects_created:
  assumes "ensure_directory_exists directory w = Inr w1"
    and "nodes w directory \<noteq> Some Dir"
  shows "effects w1 = effects w @ [Mkdir directory]"
  using assms
  by (auto simp: ensure_directory_exists_def split: option.splits node.splits)

lemma update_launcher_steps:
  assumes "update_launcher_script L launcher_file output_file w = Inr w'"
  shows "\<exists>launcher_lines. read_file launcher_file w = Inr launcher_lines
           \<and> w' = write_text (path_join L ''build'' (path_name L launcher_file))
                  (join_nl (patch_loop (path_name L output_file) False launcher_lines [])) w"
  using assms
  by (auto simp: update_launcher_script_def Let_def split: sum.splits)

text \<open>
  Claim C2, as amended.  A run of the orchestrator that succeeds is this chain of steps,
  each on the world the step before left: delete the output directory, load the
  settings, compute the version string of the settings as loaded, create the output
  directory, read the main script, combine it and write the artifact named after that
  version string, advance the build number and write the settings, read the launcher
  and write it patched with the artifact's filename, print the output path.  Its effects
  are recorded in exactly that order: the removal of the output directory (once, when
  there was one), the writing of the default settings (once, when the file was absent
  after the removal), the creation of the output directory, the artifact, the advanced
  settings, the patched launcher, the printed path.  So the build number is advanced and
  saved after the combiner and before the patcher, and the artifact's name carries the
  version from before this run's increment.
\<close>

theorem main_order_of_effects:
  assumes "main L w = Inr w'"
  shows "\<exists>settings w2 version version_string w2b main_script_lines combined
            settings' w4 launcher_lines.
           read_settings L ''settings.json'' (delete_build_directory L ''build'' w) =
             Inr (settings, w2)
           \<and> getitem settings ''version'' = Inr version
           \<and> get_version_string L version = Inr version_string
           \<and> ensure_directory_exists ''build'' w2 = Inr w2b
           \<and> read_file ''winDragon.ps1'' w2b = Inr main_script_lines
           \<and> combine_loop L ''Modules'' w2b False main_script_lines [] = Inr combined
           \<and> update_build_number L ''settings.json'' settings
                (write_text (path_join L ''build'' (''winDragon_'' @ version_string @ ''.ps1''))
                   (join_nl combined) w2b) = Inr (settings', w4)
           \<and> read_file ''launcher.ps1'' w4 = Inr launcher_lines
           \<and> w' = print_line
                    (''Combined script has been saved to ''
                     @ path_join L ''build'' (''winDragon_'' @ version_string @ ''.ps1''))
                    (write_text (path_join L ''build'' (path_name L ''launcher.ps1''))
                       (join_nl (patch_loop
                          (path_name L (path_join L ''build''
                             (''winDragon_'' @ version_string @ ''.ps1'')))
                          False launcher_lines [])) w4)
           \<and> effects w' = effects w
               @ (if nodes w ''build'' = Some Dir then [Rmtree ''build''] else [])
               @ (if nodes (delete_build_directory L ''build'' w) ''settings.json'' = None
                  then [Wrote ''settings.json'' (json_dumps L default_settings)] else [])
               @ [Mkdir ''build'',
                  Wrote (path_join L ''build'' (''winDragon_'' @ version_string @ ''.ps1''))
                    (join_nl combined),
                  Wrote ''settings.json'' (json_dumps L settings'),
                  Wrote (path_join L ''build'' (path_name L ''launcher.ps1''))
                    (join_nl (patch_loop
                       (path_name L (path_join L ''build''
                          (''winDragon_'' @ version_string @ ''.ps1'')))
                       False launcher_lines [])),
                  Printed (''Combined script has been saved to ''
                    @ path_join L ''build'' (''winDragon_'' @ version_string @ ''.ps1''))]"
proof -
  define w1 where "w1 = delete_build_directory L ''build'' w"
  from main_steps [OF assms] obtain settings w2 version version_string w3 settings' w4 w5
    where rs: "read_settings L ''settings.json'' w1 = Inr (settings, w2)"
      and gi: "getitem settings ''version'' = Inr version"
      and gv: "get_version_string L version = Inr version_string"
      and cb: "combine_powershell_scripts L ''winDragon.ps1'' ''Modules''
                (path_join L ''build'' (''winDragon_'' @ version_string @ ''.ps1'')) w2 = Inr w3"
      and ub: "update_build_number L ''settings.json'' settings w3 = Inr (settings', w4)"
      and ul: "update_launcher_script L ''launcher.ps1''
                (path_join L ''build'' (''winDragon_'' @ version_string @ ''.ps1'')) w4 = Inr w5"
      and pr: "w' = print_line (''Combined script has been saved to ''
                     @ path_join L ''build'' (''winDragon_'' @ version_string @ ''.ps1'')) w5"
    unfolding w1_def by blast
  from combine_steps [OF cb] obtain w2b main_script_lines combined
    where en: "ensure_directory_exists ''build'' w2 = Inr w2b"
      and rm: "read_file ''winDragon.ps1'' w2b = Inr main_script_lines"
      and cl: "combine_loop L ''Modules'' w2b False main_script_lines [] = Inr combined"
      and w3: "w3 = write_text (path_join L ''build'' (''winDragon_'' @ version_string @ ''.ps1''))
                      (join_nl combined) w2b"
    by blast
  from update_launcher_steps [OF ul] obtain launcher_lines
    where rl: "read_file ''launcher.ps1'' w4 = Inr launcher_lines"
      and w5: "w5 = write_text (path_join L ''build'' (path_name L ''launcher.ps1''))
                  (join_nl (patch_loop
                     (path_name L (path_join L ''build''
                        (''winDragon_'' @ version_string @ ''.ps1'')))
                     False launcher_lines [])) w4"
    by blast
  have e1: "effects w1 = effects w
      @ (if nodes w ''build'' = Some Dir then [Rmtree ''build''] else [])"
    unfolding w1_def by (rule delete_effects)
  have e2: "effects w2 = effects w1
      @ (if nodes w1 ''settings.json'' = None
         then [Wrote ''settings.json'' (json_dumps L default_settings)] else [])"
    using rs by (rule read_settings_effects(1))
  have "nodes w1 ''build'' \<noteq> Some Dir"
    unfolding w1_def by (rule delete_not_dir)
  moreover have "nodes w2 ''build'' = nodes w1 ''build''"
    using read_settings_effects(2) [OF rs] by simp
  ultimately have nd: "nodes w2 ''build'' \<noteq> Some Dir" by simp
  have e2b: "effects w2b = effects w2 @ [Mkdir ''build'']"
    using en nd by (rule ensure_effects_created)
  have e4: "effects w4 = effects w3 @ [Wrote ''settings.json'' (json_dumps L settings')]"
    using ub by (rule update_build_number_effects)
  have ef: "effects w' = effects w
               @ (if nodes w ''build'' = Some Dir then [Rmtree ''build''] else [])
               @ (if nodes w1 ''settings.json'' = None
                  then [Wrote ''settings.json'' (json_dumps L default_settings)] else [])
               @ [Mkdir ''build'',
                  Wrote (path_join L ''build'' (''winDragon_'' @ version_string @ ''.ps1''))
                    (join_nl combined),
                  Wrote ''settings.json'' (json_dumps L settings'),
                  Wrote (path_join L ''build'' (path_name L ''launcher.ps1''))
                    (join_nl (patch_loop
                       (path_name L (path_join L ''build''
                          (''winDragon_'' @ version_string @ ''.ps1'')))
                       False launcher_lines [])),
                  Printed (''Combined script has been saved to ''
                    @ path_join L ''build'' (''winDragon_'' @ version_string @ ''.ps1''))]"
    by (simp add: pr w5 print_line_def write_text_def e4 w3 e2b e2 e1)
  from rs gi gv en rm cl ub [unfolded w3] rl pr [unfolded w5] ef show ?thesis
    unfolding w1_def by blast
qed

lemma demo_run:
  "\<exists>w'. main demo_lib demo_world = Inr w'
     \<and> effects w' =
         [Wrote ''settings.json'' (demo_dumps default_settings),
          Mkdir ''build'',
          Wrote demo_output ''Write-Host 1'',
          Wrote ''settings.json'' (demo_dumps demo_advanced_settings),
          Wrote demo_launcher
            (url_assignment ''winDragon_1.0.0.0.ps1'' @ [CHR 0x0A] @ ps_code_to_insert),
          Printed (''Combined script has been saved to '' @ demo_output)]"
proof -
  define W0 where "W0 = write_text ''settings.json'' (demo_dumps default_settings) demo_world"
  define W1 where "W1 = W0\<lparr>nodes := (nodes W0)(''build'' \<mapsto> Dir),
                           effects := effects W0 @ [Mkdir ''build'']\<rparr>"
  define W3 where "W3 = write_text demo_output ''Write-Host 1'' W1"
  define W4 where "W4 = write_text ''settings.json'' (demo_dumps demo_advanced_settings) W3"
  define W5 where "W5 = write_text demo_launcher
      (url_assignment ''winDragon_1.0.0.0.ps1'' @ [CHR 0x0A] @ ps_code_to_insert) W4"
  have d: "delete_build_directory demo_lib ''build'' demo_world = demo_world"
    by (simp add: delete_build_directory_def path_exists_def demo_world_def world_of_def)
  have rs: "read_settings demo_lib ''settings.json'' demo_world = Inr (default_settings, W0)"
    by (simp add: read_settings_def path_exists_def demo_world_def world_of_def W0_def
        demo_lib_def)
  have gi: "getitem default_settings ''version'' = Inr default_version"
    by (simp add: default_settings_def)
  have sh: "show_int 1 = ''1''" "show_int 0 = ''0''"
    by (simp_all add: show_int_def show_nat.simps digit_char_def)
  have gv: "get_version_string demo_lib default_version = Inr ''1.0.0.0''"
    by (simp add: get_version_string_def default_version_def demo_lib_def sh)
  have out: "path_join demo_lib ''build'' (''winDragon_'' @ ''1.0.0.0'' @ ''.ps1'') = demo_output"
    by (simp add: demo_lib_def win_join_def demo_output_def)
  have e: "ensure_directory_exists ''build'' W0 = Inr W1"
    by (simp add: ensure_directory_exists_def W0_def W1_def write_text_def demo_world_def
        world_of_def)
  have rm: "read_file ''winDragon.ps1'' W1 = Inr [''Write-Host 1 # hi\<newline>'']"
    by (simp add: read_file_def read_text_def W1_def W0_def write_text_def demo_world_def
        world_of_def readlines_def)
  have cl: "combine_loop demo_lib ''Modules'' W1 False [''Write-Host 1 # hi\<newline>''] [] =
            Inr [''Write-Host 1'']"
    by (simp add: module_match_def clean_lines_def strip_def rstrip_def is_space_def)
  have cb: "combine_powershell_scripts demo_lib ''winDragon.ps1'' ''Modules'' demo_output W0 =
            Inr W3"
    by (simp add: combine_powershell_scripts_def e rm cl W3_def del: combine_loop.simps)
  have av: "advance_version default_version =
            Inr (JObj [(''major'', JInt 1), (''minor'', JInt 0), (''patch'', JInt 0),
                       (''build'', JInt 1)])"
    by (simp add: advance_version_def default_version_def)
  have ub: "update_build_number demo_lib ''settings.json'' default_settings W3 =
            Inr (demo_advanced_settings, W4)"
    by (simp add: update_build_number_def gi av default_settings_def demo_advanced_settings_def
        W4_def demo_lib_def)
  have rl: "read_file ''launcher.ps1'' W4 = Inr [''$winDragonScriptPath = 1\<newline>'']"
    by (simp add: read_file_def read_text_def W4_def W3_def W1_def W0_def write_text_def
        demo_world_def world_of_def readlines_def demo_output_def)
  have nm: "path_name demo_lib demo_output = ''winDragon_1.0.0.0.ps1''"
    "path_join demo_lib ''build'' (path_name demo_lib ''launcher.ps1'') = demo_launcher"
    by (simp_all add: demo_lib_def win_name_def win_join_def demo_output_def demo_launcher_def)
  have pl: "patch_loop ''winDragon_1.0.0.0.ps1'' False [''$winDragonScriptPath = 1\<newline>''] [] =
            [url_assignment ''winDragon_1.0.0.0.ps1'', ps_code_to_insert]"
    by simp
  have ul: "update_launcher_script demo_lib ''launcher.ps1'' demo_output W4 = Inr W5"
    by (simp add: update_launcher_script_def rl nm pl W5_def del: patch_loop.simps)
  have m: "main demo_lib demo_world =
           Inr (print_line (''Combined script has been saved to '' @ demo_output) W5)"
    using out by (simp add: main_def d rs gi gv cb ub ul)
  have "effects (print_line (''Combined script has been saved to '' @ demo_output) W5) =
         [Wrote ''settings.json'' (demo_dumps default_settings),
          Mkdir ''build'',
          Wrote demo_output ''Write-Host 1'',
          Wrote ''settings.json'' (demo_dumps demo_advanced_settings),
          Wrote demo_launcher
            (url_assignment ''winDragon_1.0.0.0.ps1'' @ [CHR 0x0A] @ ps_code_to_insert),
          Printed (''Combined script has been saved to '' @ demo_output)]"
    by (simp add: print_line_def W5_def W4_def W3_def W1_def W0_def write_text_def
        demo_world_def world_of_def)
  with m show ?thesis by blast
qed

theorem main_order_of_effects_witness:
  "\<exists>w'. main demo_lib demo_world = Inr w'
     \<and> effects w' =
         [Wrote ''settings.json'' (demo_dumps default_settings),
          Mkdir ''build'',
          Wrote demo_output ''Write-Host 1'',
          Wrote ''settings.json'' (demo_dumps demo_advanced_settings),
          Wrote demo_launcher
            (url_assignment ''winDragon_1.0.0.0.ps1'' @ [CHR 0x0A] @ ps_code_to_insert),
          Printed (''Combined script has been saved to '' @ demo_output)]"
proof -
  from demo_run obtain w' where m: "main demo_lib demo_world = Inr w'"
    and e: "effects w' =
         [Wrote ''settings.json'' (demo_dumps default_settings),
          Mkdir ''build'',
          Wrote demo_output ''Write-Host 1'',
          Wrote ''settings.json'' (demo_dumps demo_advanced_settings),
          Wrote demo_launcher
            (url_assignment ''winDragon_1.0.0.0.ps1'' @ [CHR 0x0A] @ ps_code_to_insert),
          Printed (''Combined script has been saved to '' @ demo_output)]"
    by blast
  from main_order_of_effects [OF m] m e show ?thesis by blast
qed

text \<open>
  Claim C2 as stated fails on the order of the last steps: in a run on a fresh project
  the advanced settings are written before the patched launcher, not after it.
\<close>

theorem advance_before_patcher_counterexample:
  "run_effects (main demo_lib demo_world) =
     Some [Wrote ''settings.json'' (demo_dumps default_settings),
           Mkdir ''build'',
           Wrote demo_output ''Write-Host 1'',
           Wrote ''settings.json'' (demo_dumps demo_advanced_settings),
           Wrote demo_launcher
             (url_assignment ''winDragon_1.0.0.0.ps1'' @ [CHR 0x0A] @ ps_code_to_insert),
           Printed (''Combined script has been saved to '' @ demo_output)]"
proof -
  from demo_run obtain w' where "main demo_lib demo_world = Inr w'"
    and "effects w' =
         [Wrote ''settings.json'' (demo_dumps default_settings),
          Mkdir ''build'',
          Wrote demo_output ''Write-Host 1'',
          Wrote ''settings.json'' (demo_dumps demo_advanced_settings),
          Wrote demo_launcher
            (url_assignment ''winDragon_1.0.0.0.ps1'' @ [CHR 0x0A] @ ps_code_to_insert),
          Printed (''Combined script has been saved to '' @ demo_output)]"
    by blast
  then show ?thesis by (simp add: run_effects_def)
qed

end
